theory Spec2Isabelle
  imports Main "HOL-Library.AList"
begin

section \<open>Errors, calls into collaborators, and how a function ends\<close>

text \<open>
  The Go error values the pipeline distinguishes.  \<open>ContextCanceled\<close> is
  \<^verbatim>\<open>context.Canceled\<close>, \<open>ErrGitDiffNotFound\<close> the sentinel of package
  \<^verbatim>\<open>errs\<close>, \<open>StatusFailed r\<close> a \<^verbatim>\<open>*errs.StatusFailed{Remark: r}\<close>,
  \<open>ErrorString m\<close> a plain error built by \<^verbatim>\<open>errs.New(m)\<close> or
  \<^verbatim>\<open>errors.New(m)\<close>, and \<open>WrapError m e\<close> an error with text \<open>m\<close> whose
  \<^verbatim>\<open>Unwrap\<close> gives \<open>e\<close> (as \<^verbatim>\<open>fmt.Errorf("...%w", e)\<close> builds).
\<close>

datatype error =
    ContextCanceled
  | ErrGitDiffNotFound
  | StatusFailed string
  | ErrorString string
  | WrapError string error

text \<open>
  Constants of the packages \<^verbatim>\<open>errs\<close>, \<^verbatim>\<open>core\<close> and \<^verbatim>\<open>global\<close>, which the
  functions below read but which are declared outside the files at hand; they are taken as
  a parameter \<open>G\<close>.  \<open>pathJoin\<close> stands for \<^verbatim>\<open>path.Join\<close> / \<^verbatim>\<open>filepath.Join\<close>.
\<close>

record globals =
  GenericErrRemark :: string
  GitDiffNotFoundText :: string
  FileRemoved :: int
  RepoDir :: string
  CodeCoverageDir :: string
  BlockTestFileLocation :: string
  OauthSecretPath :: string
  RepoSecretPath :: string
  FrameworkRunnerMap :: "(string \<times> string) list"
  InstallRunnerCmds :: "string list"
  pathJoin :: "string list \<Rightarrow> string"

text \<open>\<^verbatim>\<open>errors.Is(err, target)\<close> for a sentinel target: follow the \<^verbatim>\<open>Unwrap\<close> chain.\<close>

fun errors_Is :: "error \<Rightarrow> error \<Rightarrow> bool" where
  "errors_Is (WrapError m e) target = errors_Is e target"
| "errors_Is e target = (e = target)"

text \<open>\<^verbatim>\<open>err.Error()\<close>.\<close>

fun Error_text :: "globals \<Rightarrow> error \<Rightarrow> string" where
  "Error_text G ContextCanceled = ''context canceled''"
| "Error_text G ErrGitDiffNotFound = GitDiffNotFoundText G"
| "Error_text G (StatusFailed r) = r"
| "Error_text G (ErrorString m) = m"
| "Error_text G (WrapError m e) = m"

text \<open>The type assertion \<^verbatim>\<open>err.(*errs.StatusFailed)\<close>: the dynamic type of the value
  itself, not of anything it wraps.\<close>

fun is_StatusFailed :: "error \<Rightarrow> bool" where
  "is_StatusFailed (StatusFailed r) = True"
| "is_StatusFailed e = False"

text \<open>
  What a call into a collaborator (a service behind an interface, a subprocess, the
  network) does: it returns a value, returns an error, panics, or never returns.
\<close>

datatype 'a call = Ok 'a | Fail error | Panic string | Hang

text \<open>
  How a function of the pipeline ends: it returns (\<open>Done\<close>), a panic leaves it
  (\<open>Panicked\<close>), it never returns (\<open>Blocked\<close>), or the process is terminated inside
  it (\<open>Exit\<close>, by \<^verbatim>\<open>os.Exit\<close> or \<^verbatim>\<open>Logger.Fatalf\<close>).
\<close>

datatype 'a exit = Done 'a | Panicked string | Blocked | Exit nat

section \<open>Data model\<close>

datatype Status = Running | Passed | Failed | Error | Aborted

datatype TaskType = DiscoveryTask | FlakyTask | ExecutionTask

datatype EventType = EventPush | EventPullRequest | EventOther string

record TaskPayload =
  Type :: TaskType
  Status :: Status
  Remark :: string

record Payload =
  TaskID :: string
  BuildID :: string
  OrgID :: string
  RepoID :: string
  RepoLink :: string
  BranchName :: string
  BuildTargetCommit :: string
  TasFileName :: string
  EventType :: EventType
  LicenseTier :: string
  CollectCoverage :: bool

record NucleusConfig =
  CoverageMode :: bool
  DiscoverMode :: bool
  FlakyMode :: bool
  ExecuteMode :: bool
  Env :: string

text \<open>
  A Go \<^verbatim>\<open>map[string]T\<close> is the list of its entries in the order a \<^verbatim>\<open>range\<close>
  over it visits them (keys distinct); a lookup is \<open>map_of\<close>.  The diff map is only
  read, and a nil diff map reads like the empty one.  A map that is written is
  \<open>None\<close> when it is nil: a write to a nil map panics.
\<close>

type_synonym diff = "(string \<times> int) list"
type_synonym strmap = "(string \<times> string) list"

record Merge =
  Patterns :: "string list"
  EnvMap :: "strmap option"

record Cache =
  Key :: string
  Paths :: "string list"

record TASConfig =
  SmartRun :: bool
  Framework :: string
  ConfigFile :: string
  NodeVersion :: string
  Premerge :: "Merge option"
  Postmerge :: "Merge option"
  Prerun :: "string list option"
  Postrun :: "string list option"
  CacheV1 :: Cache
  Parallelism :: int
  SplitMode :: string
  ContainerImage :: string
  Tier :: string

record SubModule =
  Name :: string
  Path :: string
  PatternsSM :: "string list"
  FrameworkSM :: string
  ConfigFileSM :: string
  EnvMapSM :: strmap
  PrerunSM :: "string list option"
  ParallelismSM :: int

record MergeV2 =
  SubModules :: "SubModule list"
  EnvMapV2 :: "strmap option"

record TASConfigV2 =
  SmartRunV2 :: bool
  PreMerge :: MergeV2
  PostMerge :: MergeV2
  CacheV2 :: Cache
  SplitModeV2 :: string
  ContainerImageV2 :: string
  TierV2 :: string

record DiscoveryResult =
  Tests :: string
  ParallelismDR :: int
  SplitModeDR :: string
  ContainerImageDR :: string
  TierDR :: string
  SubModuleDR :: string

record ExecutionResponse =
  TaskStatus :: Status

text \<open>
  What the run does to the outside, in the order it does it: the calls into
  collaborators with the arguments that matter, the subprocess of test discovery, the
  receive on the result channel, and the operations on the wait-group.
\<close>

datatype event =
    Call string
  | Setenv string string
  | UpdateStatus TaskPayload
  | Download string
  | CacheWorkspace
  | Upload string "string list"
  | DiscoverCalled diff bool
  | CmdStart string "string list" string
  | CmdExit bool
  | ChanRecv
  | MakeAPIRequest DiscoveryResult
  | LogError string
  | WgAdd
  | WgDone
  | WgWait
  | Go string
  | GoroutinePanic string

type_synonym 'a run = "event list \<times> 'a exit"

definition emit :: "event list \<Rightarrow> 'a run \<Rightarrow> 'a run" where
  "emit es r = (es @ fst r, snd r)"

definition ret :: "'a \<Rightarrow> 'a run" where
  "ret x = ([], Done x)"

text \<open>
  A call that the trace records as \<open>ev\<close>: when it returns, the rest of the function
  (\<open>k\<close>) goes on with the value or the error; a panic or a call that never returns ends
  the function there.
\<close>

definition call :: "event \<Rightarrow> 'a call \<Rightarrow> (error + 'a \<Rightarrow> 'b run) \<Rightarrow> 'b run" where
  "call ev c k =
     (case c of
        Ok x \<Rightarrow> emit [ev] (k (Inr x))
      | Fail e \<Rightarrow> emit [ev] (k (Inl e))
      | Panic p \<Rightarrow> ([ev], Panicked p)
      | Hang \<Rightarrow> ([ev], Blocked))"

text \<open>Calling another function of the pipeline and going on with what it returned.\<close>

definition andThen :: "'a run \<Rightarrow> ('a \<Rightarrow> 'b run) \<Rightarrow> 'b run" where
  "andThen r k =
     (case snd r of
        Done x \<Rightarrow> emit (fst r) (k x)
      | Panicked p \<Rightarrow> (fst r, Panicked p)
      | Blocked \<Rightarrow> (fst r, Blocked)
      | Exit n \<Rightarrow> (fst r, Exit n))"

section \<open>Test discovery: the argument list and the dispatch\<close>

text \<open>
  The two loops that extend \<^verbatim>\<open>args\<close>:
  \<^verbatim>\<open>for k, v := range diff { if v != core.FileRemoved { args = append(args, "--diff", k) } }\<close>
  and
  \<^verbatim>\<open>for _, pattern := range target { args = append(args, "--pattern", pattern) }\<close>.
\<close>

primrec rangeDiff :: "int \<Rightarrow> string list \<Rightarrow> diff \<Rightarrow> string list" where
  "rangeDiff removed args [] = args"
| "rangeDiff removed args (kv # d) =
     rangeDiff removed (if snd kv \<noteq> removed then args @ [''--diff'', fst kv] else args) d"

primrec rangeTarget :: "string list \<Rightarrow> string list \<Rightarrow> string list" where
  "rangeTarget args [] = args"
| "rangeTarget args (pattern # target) = rangeTarget (args @ [''--pattern'', pattern]) target"

text \<open>
  The statements between the lookup of the config file in the diff and the last
  \<^verbatim>\<open>append\<close>, which \<^verbatim>\<open>Discover\<close> and \<^verbatim>\<open>DiscoverV2\<close> both contain word for word
  (\<^verbatim>\<open>Discover\<close> with \<^verbatim>\<open>tasConfig.ConfigFile\<close>, \<^verbatim>\<open>DiscoverV2\<close> with
  \<^verbatim>\<open>subModule.ConfigFile\<close>).
\<close>

definition discoverArgs ::
  "globals \<Rightarrow> bool \<Rightarrow> string \<Rightarrow> diff \<Rightarrow> bool \<Rightarrow> string \<Rightarrow> string list \<Rightarrow> string list" where
  "discoverArgs G smartRun configFilePath diff diffExists configFile target =
     (let tasYmlModified = (map_of diff configFilePath \<noteq> None);
          discoverAll = (tasYmlModified \<or> \<not> smartRun);
          args0 = [''--command'', ''discover''];
          args1 = (if \<not> discoverAll
                   then (if length diff = 0 \<and> diffExists
                         then args0 @ [''--diff'']
                         else rangeDiff (FileRemoved G) args0 diff)
                   else args0);
          args2 = (if configFile \<noteq> [] then args1 @ [''--config'', configFile] else args1)
      in rangeTarget args2 target)"

text \<open>\<^verbatim>\<open>global.FrameworkRunnerMap[framework]\<close>: a missing key reads as the empty string.\<close>

definition runnerOf :: "globals \<Rightarrow> string \<Rightarrow> string" where
  "runnerOf G framework =
     (case map_of (FrameworkRunnerMap G) framework of None \<Rightarrow> [] | Some r \<Rightarrow> r)"

text \<open>
  What the calls made by one invocation of the dispatcher do.  \<open>tdResChan\<close> is what
  the receive on the result channel finds: \<open>Some r\<close> when the collector delivers
  \<open>r\<close>, \<open>None\<close> when nothing is ever delivered and the receive blocks for good.
\<close>

record tds_env =
  GetConfigFileNameR :: "string call"
  GetEnvVariablesR :: "string list call"
  cmdRunR :: "unit call"
  tdResChan :: "DiscoveryResult option"
  MarshalR :: "unit call"
  MakeAPIRequestR :: "unit call"

text \<open>
  \<^verbatim>\<open>cmd.Run()\<close>: the subprocess is started and \<^verbatim>\<open>Run\<close> returns when it has
  exited; \<open>CmdExit ok\<close> records the return, \<open>ok\<close> telling whether \<^verbatim>\<open>Run\<close>
  returned nil.
\<close>

definition cmdRun ::
  "string \<Rightarrow> string list \<Rightarrow> string \<Rightarrow> unit call \<Rightarrow> (error option \<Rightarrow> 'b run) \<Rightarrow> 'b run" where
  "cmdRun runner args dir c k =
     (case c of
        Ok u \<Rightarrow> emit [CmdStart runner args dir, CmdExit True] (k None)
      | Fail e \<Rightarrow> emit [CmdStart runner args dir, CmdExit False] (k (Some e))
      | Panic p \<Rightarrow> ([CmdStart runner args dir], Panicked p)
      | Hang \<Rightarrow> ([CmdStart runner args dir], Blocked))"

text \<open>\<^verbatim>\<open><-tds.tdResChan\<close>: \<open>ChanRecv\<close> records that the receive is begun.\<close>

definition recv :: "DiscoveryResult option \<Rightarrow> (DiscoveryResult \<Rightarrow> 'b run) \<Rightarrow> 'b run" where
  "recv ch k = (case ch of None \<Rightarrow> ([ChanRecv], Blocked) | Some r \<Rightarrow> emit [ChanRecv] (k r))"

definition updateResult :: "tds_env \<Rightarrow> DiscoveryResult \<Rightarrow> error option run" where
  "updateResult D testDiscoveryResult =
     call (Call ''json.Marshal'') (MarshalR D) (\<lambda>r. case r of
        Inl err \<Rightarrow> ret (Some err)
      | Inr u \<Rightarrow>
     call (MakeAPIRequest testDiscoveryResult) (MakeAPIRequestR D) (\<lambda>r. case r of
        Inl err \<Rightarrow> ret (Some err)
      | Inr u \<Rightarrow> ret None))"

text \<open>
  \<^verbatim>\<open>Discover\<close> (schema v1).  \<^verbatim>\<open>tasConfig.Premerge\<close> and \<^verbatim>\<open>tasConfig.Postmerge\<close>
  are pointers; reading a field through a nil one panics.
\<close>

definition Discover ::
  "globals \<Rightarrow> tds_env \<Rightarrow> TASConfig \<Rightarrow> Payload \<Rightarrow> strmap \<Rightarrow> diff \<Rightarrow> bool \<Rightarrow> error option run" where
  "Discover G D tasConfig payload secretData diff diffExists =
     (case (if EventType payload = EventPullRequest
            then Premerge tasConfig else Postmerge tasConfig) of
        None \<Rightarrow> ([], Panicked ''nil pointer dereference'')
      | Some merge \<Rightarrow>
     (let target = Patterns merge in
     call (Call ''GetConfigFileName'') (GetConfigFileNameR D) (\<lambda>r. case r of
        Inl err \<Rightarrow> ret (Some err)
      | Inr configFilePath \<Rightarrow>
     (let args = discoverArgs G (SmartRun tasConfig) configFilePath diff diffExists
                   (ConfigFile tasConfig) target in
     call (Call ''GetEnvVariables'') (GetEnvVariablesR D) (\<lambda>r. case r of
        Inl err \<Rightarrow> ret (Some err)
      | Inr envVars \<Rightarrow>
     cmdRun (runnerOf G (Framework tasConfig)) args (RepoDir G) (cmdRunR D) (\<lambda>r. case r of
        Some err \<Rightarrow> ret (Some err)
      | None \<Rightarrow>
     recv (tdResChan D) (\<lambda>testDiscoveryResult.
     updateResult D (testDiscoveryResult
        \<lparr> ParallelismDR := Parallelism tasConfig,
          SplitModeDR := SplitMode tasConfig,
          ContainerImageDR := ContainerImage tasConfig,
          TierDR := Tier tasConfig \<rparr>))))))))"

text \<open>
  \<^verbatim>\<open>DiscoverV2\<close>, first statements: \<^verbatim>\<open>envMap\<close> is the merge-level map of the
  config itself (a Go map is a reference), and the loop
  \<^verbatim>\<open>for k, v := range subModule.EnvMap { envMap[k] = v }\<close> writes into it.
\<close>

definition mergeEnv :: "EventType \<Rightarrow> TASConfigV2 \<Rightarrow> strmap option" where
  "mergeEnv ev tasConfig =
     (if ev = EventPullRequest then EnvMapV2 (PreMerge tasConfig)
      else EnvMapV2 (PostMerge tasConfig))"

definition setMergeEnv :: "EventType \<Rightarrow> strmap option \<Rightarrow> TASConfigV2 \<Rightarrow> TASConfigV2" where
  "setMergeEnv ev m tasConfig =
     (if ev = EventPullRequest
      then tasConfig \<lparr> PreMerge := (PreMerge tasConfig) \<lparr> EnvMapV2 := m \<rparr> \<rparr>
      else tasConfig \<lparr> PostMerge := (PostMerge tasConfig) \<lparr> EnvMapV2 := m \<rparr> \<rparr>)"

text \<open>The loop; \<open>None\<close> is the panic of an assignment to an entry of a nil map.\<close>

fun rangeEnv :: "strmap option \<Rightarrow> strmap \<Rightarrow> strmap option option" where
  "rangeEnv envMap [] = Some envMap"
| "rangeEnv None (kv # kvs) = None"
| "rangeEnv (Some m) (kv # kvs) = rangeEnv (Some (AList.update (fst kv) (snd kv) m)) kvs"

text \<open>
  \<^verbatim>\<open>DiscoverV2\<close>.  The first component of the result is the config as the call leaves
  it, the second what the call does and how it ends.
\<close>

definition DiscoverV2 ::
  "globals \<Rightarrow> tds_env \<Rightarrow> SubModule \<Rightarrow> Payload \<Rightarrow> strmap \<Rightarrow> TASConfigV2 \<Rightarrow> diff \<Rightarrow> bool
     \<Rightarrow> TASConfigV2 \<times> error option run" where
  "DiscoverV2 G D subModule payload secretData tasConfig diff diffExists =
     (case rangeEnv (mergeEnv (EventType payload) tasConfig) (EnvMapSM subModule) of
        None \<Rightarrow> (tasConfig, [], Panicked ''assignment to entry in nil map'')
      | Some envMap \<Rightarrow>
     (setMergeEnv (EventType payload) envMap tasConfig,
     (let target = PatternsSM subModule in
     call (Call ''GetConfigFileName'') (GetConfigFileNameR D) (\<lambda>r. case r of
        Inl err \<Rightarrow> ret (Some err)
      | Inr configFilePath \<Rightarrow>
     (let args = discoverArgs G (SmartRunV2 tasConfig) configFilePath diff diffExists
                   (ConfigFileSM subModule) target in
     call (Call ''GetEnvVariables'') (GetEnvVariablesR D) (\<lambda>r. case r of
        Inl err \<Rightarrow> ret (Some err)
      | Inr envVars \<Rightarrow>
     cmdRun (runnerOf G (FrameworkSM subModule)) args (pathJoin G [RepoDir G, Path subModule])
        (cmdRunR D) (\<lambda>r. case r of
        Some err \<Rightarrow> ret (Some err)
      | None \<Rightarrow>
     recv (tdResChan D) (\<lambda>testDiscoveryResult.
     updateResult D (testDiscoveryResult
        \<lparr> ParallelismDR := ParallelismSM subModule,
          SplitModeDR := SplitModeV2 tasConfig,
          SubModuleDR := Name subModule,
          TierDR := TierV2 tasConfig,
          ContainerImageDR := ContainerImageV2 tasConfig \<rparr>)))))))))"

section \<open>The pipeline\<close>

text \<open>What the calls of one submodule task do, and what the calls of a whole run do.\<close>

record task_env =
  GetBlockTestsT :: "unit call"
  PreRunT :: "unit call"
  InstallRunnersT :: "unit call"
  tdsT :: tds_env

text \<open>
  \<open>GetChangedFilesR\<close> gives the diff map together with the error, both of which
  \<^verbatim>\<open>GetChangedFiles\<close> returns (\<open>Fail e\<close> is read as the error \<open>e\<close> with a nil
  map); \<open>ExecRunR\<close> gives whether the execution results are non-nil, and the error.
\<close>

record run_env =
  FetchPayloadR :: "Payload call"
  ValidatePayloadR :: "unit call"
  MergeAndUploadR :: "unit call"
  UpdateStatusRunningR :: "unit call"
  UpdateStatusFinalR :: "unit call"
  GetOauthSecretR :: "unit call"
  GetRepoSecretR :: "strmap call"
  CloneR :: "unit call"
  ExtractWorkspaceR :: "unit call"
  CreateIfNotExistsR :: "unit call"
  GetVersionR :: "int call"
  LoadAndValidateV1R :: "TASConfig call"
  LoadAndValidateV2R :: "TASConfigV2 call"
  InstallNodeVerR :: "unit call"
  GetenvPATH :: string
  GetBlockTestsR :: "unit call"
  DownloadR :: "unit call"
  PreRunR :: "unit call"
  InstallRunnersR :: "unit call"
  CacheWorkspaceR :: "unit call"
  GetChangedFilesR :: "(diff \<times> error option) call"
  tdsR :: tds_env
  UploadR :: "unit call"
  UploadAgainR :: "unit call"
  ExecRunR :: "(bool \<times> error option) call"
  SendResultsR :: "ExecutionResponse call"
  PostRunR :: "unit call"
  taskR :: "nat \<Rightarrow> task_env"

text \<open>\<^verbatim>\<open>errs.New(errs.GenericErrRemark.Error())\<close>.\<close>

definition genericErr :: "globals \<Rightarrow> error" where
  "genericErr G = ErrorString (GenericErrRemark G)"

text \<open>
  The statements after \<^verbatim>\<open>Identifying changed files ...\<close>, the same in
  \<^verbatim>\<open>runOldVersion\<close> and \<^verbatim>\<open>runNewVersion\<close>: the function goes on (\<open>k\<close>) with
  the diff and \<^verbatim>\<open>diffExists\<close>, or returns an error.
\<close>

definition changedFiles ::
  "globals \<Rightarrow> (diff \<times> error option) call \<Rightarrow> 'a \<Rightarrow> (diff \<Rightarrow> bool \<Rightarrow> ('a \<times> error option) run)
     \<Rightarrow> ('a \<times> error option) run" where
  "changedFiles G c st k =
     call (Call ''GetChangedFiles'') c (\<lambda>r.
       (let diff = (case r of Inl e \<Rightarrow> [] | Inr x \<Rightarrow> fst x);
            err = (case r of Inl e \<Rightarrow> Some e | Inr x \<Rightarrow> snd x)
        in case err of
             None \<Rightarrow> k diff True
           | Some e \<Rightarrow>
               if errors_Is e ErrGitDiffNotFound then k diff False
               else ret (st, Some (ErrorString ''Error occurred in fetching diff from GitHub''))))"

definition installNodeVersion :: "globals \<Rightarrow> run_env \<Rightarrow> string \<Rightarrow> error option run" where
  "installNodeVersion G R nodeVersion =
     call (Call ''ExecuteInternalCommands InstallNodeVer'') (InstallNodeVerR R) (\<lambda>r. case r of
        Inl err \<Rightarrow> ret (Some (genericErr G))
      | Inr u \<Rightarrow>
          emit [Setenv ''PATH''
                  (''/home/nucleus/.nvm/versions/node/v'' @ nodeVersion @ ''/bin:'' @ GetenvPATH R)]
            (ret None))"

text \<open>\<^verbatim>\<open>runOldVersion\<close>: the block \<^verbatim>\<open>if pl.Cfg.DiscoverMode { ... }\<close>.\<close>

definition discoverOld ::
  "globals \<Rightarrow> run_env \<Rightarrow> Payload \<Rightarrow> TaskPayload \<Rightarrow> strmap \<Rightarrow> TASConfig \<Rightarrow> string
     \<Rightarrow> (TaskPayload \<times> error option) run" where
  "discoverOld G R payload taskPayload secretMap tasConfig cacheKey =
     call (Call ''GetBlockTests'') (GetBlockTestsR R) (\<lambda>r. case r of
        Inl err \<Rightarrow> ret (taskPayload, Some (genericErr G))
      | Inr u \<Rightarrow>
     call (Download cacheKey) (DownloadR R) (\<lambda>r. case r of
        Inl err \<Rightarrow> ret (taskPayload, Some (genericErr G))
      | Inr u \<Rightarrow>
     andThen (if Prerun tasConfig \<noteq> None
              then call (Call ''ExecuteUserCommands PreRun'') (PreRunR R) (\<lambda>r. case r of
                     Inl err \<Rightarrow> ret (Some (StatusFailed ''Failed in running pre-run steps''))
                   | Inr u \<Rightarrow> ret None)
              else ret None) (\<lambda>r. case r of
        Some err \<Rightarrow> ret (taskPayload, Some err)
      | None \<Rightarrow>
     call (Call ''ExecuteInternalCommands InstallRunners'') (InstallRunnersR R) (\<lambda>r. case r of
        Inl err \<Rightarrow> ret (taskPayload, Some (genericErr G))
      | Inr u \<Rightarrow>
     call CacheWorkspace (CacheWorkspaceR R) (\<lambda>r. case r of
        Inl err \<Rightarrow> ret (taskPayload, Some (genericErr G))
      | Inr u \<Rightarrow>
     changedFiles G (GetChangedFilesR R) taskPayload (\<lambda>diff diffExists.
     andThen (emit [DiscoverCalled diff diffExists]
                (Discover G (tdsR R) tasConfig payload secretMap diff diffExists)) (\<lambda>r. case r of
        Some err \<Rightarrow> ret (taskPayload, Some (StatusFailed ''Failed in discovering tests''))
      | None \<Rightarrow>
     call (Upload cacheKey (Paths (CacheV1 tasConfig))) (UploadR R) (\<lambda>r. case r of
        Inl err \<Rightarrow> ret (taskPayload \<lparr> Status := Passed \<rparr>, Some (genericErr G))
      | Inr u \<Rightarrow> ret (taskPayload \<lparr> Status := Passed \<rparr>, None)))))))))"

text \<open>\<^verbatim>\<open>runOldVersion\<close>: the block \<^verbatim>\<open>if pl.Cfg.ExecuteMode || pl.Cfg.FlakyMode { ... }\<close>.\<close>

definition executeOld ::
  "globals \<Rightarrow> run_env \<Rightarrow> TaskPayload \<Rightarrow> TASConfig \<Rightarrow> (TaskPayload \<times> error option) run" where
  "executeOld G R taskPayload tasConfig =
     call (Call ''TestExecutionService.Run'') (ExecRunR R) (\<lambda>r.
       (let executionResults = (case r of Inl e \<Rightarrow> False | Inr x \<Rightarrow> fst x);
            err = (case r of Inl e \<Rightarrow> Some e | Inr x \<Rightarrow> snd x)
        in if err \<noteq> None \<and> \<not> executionResults
           then ret (taskPayload, Some (StatusFailed ''Failed in executing tests.''))
           else
     call (Call ''SendResults'') (SendResultsR R) (\<lambda>r. case r of
        Inl err \<Rightarrow> ret (taskPayload, Some (genericErr G))
      | Inr resp \<Rightarrow>
     (if Postrun tasConfig \<noteq> None
      then call (Call ''ExecuteUserCommands PostRun'') (PostRunR R) (\<lambda>r. case r of
             Inl err \<Rightarrow> ret (taskPayload \<lparr> Status := TaskStatus resp \<rparr>,
                              Some (StatusFailed ''Failed in running post-run steps.''))
           | Inr u \<Rightarrow> ret (taskPayload \<lparr> Status := TaskStatus resp \<rparr>, None))
      else ret (taskPayload \<lparr> Status := TaskStatus resp \<rparr>, None)))))"

definition runOldVersion ::
  "globals \<Rightarrow> run_env \<Rightarrow> NucleusConfig \<Rightarrow> Payload \<Rightarrow> TaskPayload \<Rightarrow> strmap
     \<Rightarrow> (TaskPayload \<times> error option) run" where
  "runOldVersion G R cfg payload taskPayload secretMap =
     call (Call ''LoadAndValidateV1'') (LoadAndValidateV1R R) (\<lambda>r. case r of
        Inl err \<Rightarrow> ret (taskPayload, Some (StatusFailed (Error_text G err)))
      | Inr tasConfig \<Rightarrow>
     (let cacheKey = OrgID payload @ ''/'' @ RepoID payload @ ''/'' @ Key (CacheV1 tasConfig) in
     andThen (if NodeVersion tasConfig \<noteq> []
              then installNodeVersion G R (NodeVersion tasConfig) else ret None) (\<lambda>r. case r of
        Some nodeErr \<Rightarrow> ret (taskPayload, Some nodeErr)
      | None \<Rightarrow>
     andThen (if DiscoverMode cfg
              then discoverOld G R payload taskPayload secretMap tasConfig cacheKey
              else ret (taskPayload, None)) (\<lambda>r. case snd r of
        Some err \<Rightarrow> ret r
      | None \<Rightarrow>
     (if ExecuteMode cfg \<or> FlakyMode cfg
      then executeOld G R (fst r) tasConfig
      else ret (fst r, None))))))"

subsection \<open>Schema v2: one task per submodule\<close>

text \<open>
  \<^verbatim>\<open>runDiscoveryForEachSubModule\<close>.  \<open>WgDone\<close> is the \<^verbatim>\<open>wg.Done()\<close> of its
  last line but one.  The config that \<^verbatim>\<open>DiscoverV2\<close> leaves behind is described with
  \<^verbatim>\<open>DiscoverV2\<close>; here only what the task does and returns is kept.
\<close>

definition runDiscoveryForEachSubModule ::
  "globals \<Rightarrow> task_env \<Rightarrow> Payload \<Rightarrow> SubModule \<Rightarrow> TASConfigV2 \<Rightarrow> strmap \<Rightarrow> diff \<Rightarrow> bool
     \<Rightarrow> error option run" where
  "runDiscoveryForEachSubModule G T payload subModule tasConfig secretMap diff diffExists =
     call (Call ''GetBlockTests'') (GetBlockTestsT T) (\<lambda>r. case r of
        Inl err \<Rightarrow> ret (Some (genericErr G))
      | Inr u \<Rightarrow>
     andThen (if PrerunSM subModule \<noteq> None
              then call (Call ''ExecuteUserCommands PreRun'') (PreRunT T) (\<lambda>r. case r of
                     Inl err \<Rightarrow> ret (Some (StatusFailed ''Failed in running pre-run steps''))
                   | Inr u \<Rightarrow> ret None)
              else ret None) (\<lambda>r. case r of
        Some err \<Rightarrow> ret (Some err)
      | None \<Rightarrow>
     call (Call ''ExecuteInternalCommands InstallRunners'') (InstallRunnersT T) (\<lambda>r. case r of
        Inl err \<Rightarrow> ret (Some (genericErr G))
      | Inr u \<Rightarrow>
     andThen (snd (DiscoverV2 G (tdsT T) subModule payload secretMap tasConfig diff diffExists))
       (\<lambda>r. case r of
        Some err \<Rightarrow> ret (Some (StatusFailed ''Failed in discovering tests''))
      | None \<Rightarrow> emit [WgDone] (ret None)))))"

text \<open>
  The body of the goroutine that \<^verbatim>\<open>runNewVersion\<close> starts for a submodule:
  \<^verbatim>\<open>if dicoveryErr := pl.runDiscoveryForEachSubModule(...); dicoveryErr != nil {
       pl.Logger.Errorf(...); wg.Done() }\<close>.
\<close>

definition goroutine ::
  "globals \<Rightarrow> task_env \<Rightarrow> Payload \<Rightarrow> SubModule \<Rightarrow> TASConfigV2 \<Rightarrow> strmap \<Rightarrow> diff \<Rightarrow> bool
     \<Rightarrow> unit run" where
  "goroutine G T payload subModule tasConfig secretMap diff diffExists =
     andThen (runDiscoveryForEachSubModule G T payload subModule tasConfig secretMap
                diff diffExists) (\<lambda>dicoveryErr. case dicoveryErr of
        Some err \<Rightarrow>
          emit [LogError (''error while running discovery for sub module '' @ Name subModule),
                WgDone] (ret ())
      | None \<Rightarrow> ret ())"

text \<open>
  What a goroutine does, step by step; a panic that leaves a goroutine ends the process,
  which the last step records.
\<close>

definition program :: "unit run \<Rightarrow> event list" where
  "program r = fst r @ (case snd r of Panicked p \<Rightarrow> [GoroutinePanic p] | _ \<Rightarrow> [])"

definition programs ::
  "globals \<Rightarrow> (nat \<Rightarrow> task_env) \<Rightarrow> Payload \<Rightarrow> SubModule list \<Rightarrow> TASConfigV2 \<Rightarrow> strmap \<Rightarrow> diff
     \<Rightarrow> bool \<Rightarrow> (string \<times> event list) list" where
  "programs G taskEnv payload subModules tasConfig secretMap diff diffExists =
     map (\<lambda>i. (Name (subModules ! i),
                program (goroutine G (taskEnv i) payload (subModules ! i) tasConfig secretMap
                           diff diffExists)))
       [0 ..< length subModules]"

subsection \<open>Schema v2: the coordinator and its goroutines, interleaved\<close>

text \<open>
  From \<^verbatim>\<open>wg := sync.WaitGroup{}\<close> on, \<^verbatim>\<open>runNewVersion\<close> runs beside the goroutines it
  starts.  The machine below holds where the coordinator stands, the counter of the
  wait-group, what each started goroutine still has to do, and what has been done so far;
  a schedule says who takes the next step.
\<close>

datatype actor = Coordinator | Task nat

datatype pc =
    Spawning nat
  | Waiting
  | Persisting
  | Uploading
  | UploadingAgain
  | Finished "error option exit"

record machine =
  pcM :: pc
  wg :: int
  tasks :: "event list list"
  trace :: "event list"
  crashed :: bool

definition perform :: "event \<Rightarrow> unit call \<Rightarrow> pc \<Rightarrow> error \<Rightarrow> machine \<Rightarrow> machine" where
  "perform ev c next err s =
     s \<lparr> trace := trace s @ [ev],
         pcM := (case c of
                   Ok u \<Rightarrow> next
                 | Fail e \<Rightarrow> Finished (Done (Some err))
                 | Panic p \<Rightarrow> Finished (Panicked p)
                 | Hang \<Rightarrow> Finished Blocked) \<rparr>"

text \<open>
  One step of the coordinator.  \<open>Spawning i\<close> is the head of the loop over the
  submodules: \<^verbatim>\<open>wg.Add(1); go func(...)\<close>.  After the loop the pull-request branch
  calls \<^verbatim>\<open>wg.Wait()\<close>, which returns only when the counter is zero; the push branch has
  no \<^verbatim>\<open>wg.Wait()\<close>.  Then come \<^verbatim>\<open>CacheWorkspace\<close> and the two calls of
  \<^verbatim>\<open>Upload\<close>.
\<close>

definition coordStep ::
  "globals \<Rightarrow> run_env \<Rightarrow> bool \<Rightarrow> (string \<times> event list) list \<Rightarrow> string \<Rightarrow> string list
     \<Rightarrow> machine \<Rightarrow> machine" where
  "coordStep G R push progs cacheKey paths s =
     (case pcM s of
        Spawning i \<Rightarrow>
          if i < length progs
          then s \<lparr> wg := wg s + 1,
                   tasks := tasks s @ [snd (progs ! i)],
                   trace := trace s @ [WgAdd, Go (fst (progs ! i))],
                   pcM := Spawning (i + 1) \<rparr>
          else s \<lparr> pcM := (if push then Persisting else Waiting) \<rparr>
      | Waiting \<Rightarrow>
          if wg s = 0 then s \<lparr> trace := trace s @ [WgWait], pcM := Persisting \<rparr> else s
      | Persisting \<Rightarrow> perform CacheWorkspace (CacheWorkspaceR R) Uploading (genericErr G) s
      | Uploading \<Rightarrow> perform (Upload cacheKey paths) (UploadR R) UploadingAgain (genericErr G) s
      | UploadingAgain \<Rightarrow>
          perform (Upload cacheKey paths) (UploadAgainR R) (Finished (Done None)) (genericErr G) s
      | Finished x \<Rightarrow> s)"

text \<open>
  One step of goroutine \<open>i\<close>: its next event.  \<^verbatim>\<open>wg.Done()\<close> decrements the counter
  and panics when the counter would become negative.
\<close>

definition taskStep :: "nat \<Rightarrow> machine \<Rightarrow> machine" where
  "taskStep i s =
     (if i < length (tasks s) then
        (case tasks s ! i of
           [] \<Rightarrow> s
         | ev # rest \<Rightarrow>
             (case ev of
                WgDone \<Rightarrow>
                  if wg s \<le> 0
                  then s \<lparr> tasks := (tasks s)[i := []],
                           trace := trace s @ [GoroutinePanic ''sync: negative WaitGroup counter''],
                           crashed := True \<rparr>
                  else s \<lparr> tasks := (tasks s)[i := rest],
                           trace := trace s @ [WgDone],
                           wg := wg s - 1 \<rparr>
              | GoroutinePanic p \<Rightarrow>
                  s \<lparr> tasks := (tasks s)[i := rest], trace := trace s @ [ev], crashed := True \<rparr>
              | _ \<Rightarrow> s \<lparr> tasks := (tasks s)[i := rest], trace := trace s @ [ev] \<rparr>))
      else s)"

definition step ::
  "globals \<Rightarrow> run_env \<Rightarrow> bool \<Rightarrow> (string \<times> event list) list \<Rightarrow> string \<Rightarrow> string list
     \<Rightarrow> machine \<Rightarrow> actor \<Rightarrow> machine" where
  "step G R push progs cacheKey paths s a =
     (if crashed s then s
      else case a of
             Coordinator \<Rightarrow> coordStep G R push progs cacheKey paths s
           | Task i \<Rightarrow> taskStep i s)"

definition init :: machine where
  "init = \<lparr> pcM = Spawning 0, wg = 0, tasks = [], trace = [], crashed = False \<rparr>"

definition exec ::
  "globals \<Rightarrow> run_env \<Rightarrow> bool \<Rightarrow> (string \<times> event list) list \<Rightarrow> string \<Rightarrow> string list
     \<Rightarrow> actor list \<Rightarrow> machine \<Rightarrow> machine" where
  "exec G R push progs cacheKey paths sched s =
     foldl (step G R push progs cacheKey paths) s sched"

text \<open>
  How \<^verbatim>\<open>runNewVersion\<close> has ended when the schedule is used up: with what the
  coordinator returned; with the end of the process when a goroutine panicked; not yet
  (\<open>Blocked\<close>) otherwise.
\<close>

definition outcome :: "machine \<Rightarrow> error option run" where
  "outcome s =
     (trace s,
      if crashed s then Exit 2
      else case pcM s of Finished x \<Rightarrow> x | _ \<Rightarrow> Blocked)"

definition runNewVersion ::
  "globals \<Rightarrow> run_env \<Rightarrow> NucleusConfig \<Rightarrow> Payload \<Rightarrow> TaskPayload \<Rightarrow> strmap \<Rightarrow> actor list
     \<Rightarrow> (TaskPayload \<times> error option) run" where
  "runNewVersion G R cfg payload taskPayload secretMap sched =
     call (Call ''LoadAndValidateV2'') (LoadAndValidateV2R R) (\<lambda>r. case r of
        Inl err \<Rightarrow> ret (taskPayload, Some (StatusFailed (Error_text G err)))
      | Inr tasConfig \<Rightarrow>
     (if DiscoverMode cfg then
     (let cacheKey = OrgID payload @ ''/'' @ RepoID payload @ ''/'' @ Key (CacheV2 tasConfig) in
     call (Download cacheKey) (DownloadR R) (\<lambda>r. case r of
        Inl err \<Rightarrow> ret (taskPayload, Some (genericErr G))
      | Inr u \<Rightarrow>
     changedFiles G (GetChangedFilesR R) taskPayload (\<lambda>diff diffExists.
     (let push = (EventType payload = EventPush);
          subModules = (if push then SubModules (PostMerge tasConfig)
                        else SubModules (PreMerge tasConfig));
          progs = programs G (taskR R) payload subModules tasConfig secretMap diff diffExists
      in andThen (outcome (exec G R push progs cacheKey (Paths (CacheV2 tasConfig)) sched init))
           (\<lambda>err. ret (taskPayload, err))))))
      else ret (taskPayload, None)))"

subsection \<open>The lifecycle\<close>

text \<open>
  What the deferred function of \<^verbatim>\<open>Start\<close> finds: a recovered panic, or the value of
  \<^verbatim>\<open>err\<close> at the return.
\<close>

datatype ending = Recovered string | Returned "error option"

text \<open>
  The deferred function up to its call of \<^verbatim>\<open>UpdateStatus\<close> (the end time is left
  out).
\<close>

definition finalizer :: "globals \<Rightarrow> ending \<Rightarrow> TaskPayload \<Rightarrow> TaskPayload" where
  "finalizer G e taskPayload =
     (case e of
        Recovered p \<Rightarrow> taskPayload \<lparr> Status := Error, Remark := GenericErrRemark G \<rparr>
      | Returned None \<Rightarrow> taskPayload
      | Returned (Some err) \<Rightarrow>
          if errors_Is err ContextCanceled
          then taskPayload \<lparr> Status := Aborted, Remark := ''Task aborted'' \<rparr>
          else (if is_StatusFailed err
                then taskPayload \<lparr> Status := Failed, Remark := Error_text G err \<rparr>
                else taskPayload \<lparr> Status := Error, Remark := Error_text G err \<rparr>))"

text \<open>\<^verbatim>\<open>Logger.Fatalf\<close> logs and ends the process with status 1.\<close>

definition Fatalf :: "'a run" where
  "Fatalf = ([], Exit 1)"

text \<open>
  The end of the deferred function: the status is reported, and the result of the
  report is assigned to the named result \<^verbatim>\<open>err\<close> of \<^verbatim>\<open>Start\<close>.
\<close>

definition report :: "run_env \<Rightarrow> TaskPayload \<Rightarrow> error option run" where
  "report R taskPayload =
     call (UpdateStatus taskPayload) (UpdateStatusFinalR R) (\<lambda>r. case r of
        Inl err \<Rightarrow> Fatalf
      | Inr u \<Rightarrow> ret None)"

text \<open>
  \<^verbatim>\<open>Start\<close> from \<^verbatim>\<open>GetOauthSecret\<close> to its last \<^verbatim>\<open>return\<close>: the statements that run
  with the deferred function registered.
\<close>

definition controlled ::
  "globals \<Rightarrow> run_env \<Rightarrow> NucleusConfig \<Rightarrow> Payload \<Rightarrow> TaskPayload \<Rightarrow> actor list
     \<Rightarrow> (TaskPayload \<times> error option) run" where
  "controlled G R cfg payload taskPayload sched =
     call (Call ''GetOauthSecret'') (GetOauthSecretR R) (\<lambda>r. case r of
        Inl err \<Rightarrow> ret (taskPayload, Some err)
      | Inr oauth \<Rightarrow>
     call (Call ''GetRepoSecret'') (GetRepoSecretR R) (\<lambda>r. case r of
        Inl err \<Rightarrow> ret (taskPayload, Some (genericErr G))
      | Inr secretMap \<Rightarrow>
     andThen (if DiscoverMode cfg
              then call (Call ''Clone'') (CloneR R) (\<lambda>r. case r of
                     Inl err \<Rightarrow>
                       ret (Some (StatusFailed (''Unable to clone repo: '' @ RepoLink payload)))
                   | Inr u \<Rightarrow> ret None)
              else call (Call ''ExtractWorkspace'') (ExtractWorkspaceR R) (\<lambda>r. case r of
                     Inl err \<Rightarrow> ret (Some (genericErr G))
                   | Inr u \<Rightarrow> ret None)) (\<lambda>r. case r of
        Some err \<Rightarrow> ret (taskPayload, Some err)
      | None \<Rightarrow>
     (let coverageDir = pathJoin G [CodeCoverageDir G, OrgID payload, RepoID payload,
                                    BuildTargetCommit payload] in
     andThen (if CollectCoverage payload
              then call (Call ''CreateIfNotExists'') (CreateIfNotExistsR R) (\<lambda>r. case r of
                     Inl err \<Rightarrow> ret (Some (genericErr G))
                   | Inr u \<Rightarrow> ret None)
              else ret None) (\<lambda>r. case r of
        Some err \<Rightarrow> ret (taskPayload, Some err)
      | None \<Rightarrow>
     call (Call ''GetVersion'') (GetVersionR R) (\<lambda>r. case r of
        Inl err \<Rightarrow> ret (taskPayload, Some (StatusFailed (Error_text G err)))
      | Inr version \<Rightarrow>
     emit [Setenv ''TASK_ID'' (TaskID payload),
           Setenv ''ORG_ID'' (OrgID payload),
           Setenv ''BUILD_ID'' (BuildID payload),
           Setenv ''COMMIT_ID'' (BuildTargetCommit payload),
           Setenv ''REPO_ID'' (RepoID payload),
           Setenv ''CODE_COVERAGE_DIR'' coverageDir,
           Setenv ''BRANCH_NAME'' (BranchName payload),
           Setenv ''ENV'' (Env cfg),
           Setenv ''ENDPOINT_POST_TEST_LIST'' ''http://localhost:9876/test-list'',
           Setenv ''ENDPOINT_POST_TEST_RESULTS'' ''http://localhost:9876/results'',
           Setenv ''REPO_ROOT'' (RepoDir G),
           Setenv ''BLOCK_TESTS_FILE'' (BlockTestFileLocation G)]
       (if version \<ge> 2
        then runNewVersion G R cfg payload taskPayload secretMap sched
        else emit [Setenv ''MODULE_PATH'' []]
               (runOldVersion G R cfg payload taskPayload secretMap))))))))"

text \<open>
  The deferred function applied to how the controlled statements ended.  It runs when
  they return and when they panic; it does not run when they never return or the process
  has ended.  A panic finds \<^verbatim>\<open>taskPayload\<close> as it was registered, up to the two fields
  that the deferred function then overwrites.
\<close>

definition deferred ::
  "globals \<Rightarrow> run_env \<Rightarrow> TaskPayload \<Rightarrow> (TaskPayload \<times> error option) run \<Rightarrow> error option run" where
  "deferred G R taskPayload body =
     (case snd body of
        Done x \<Rightarrow> emit (fst body) (report R (finalizer G (Returned (snd x)) (fst x)))
      | Panicked p \<Rightarrow> emit (fst body) (report R (finalizer G (Recovered p) taskPayload))
      | Blocked \<Rightarrow> (fst body, Blocked)
      | Exit n \<Rightarrow> (fst body, Exit n))"

definition Start :: "globals \<Rightarrow> run_env \<Rightarrow> NucleusConfig \<Rightarrow> actor list \<Rightarrow> error option run" where
  "Start G R cfg sched =
     call (Call ''FetchPayload'') (FetchPayloadR R) (\<lambda>r. case r of
        Inl err \<Rightarrow> Fatalf
      | Inr payload \<Rightarrow>
     call (Call ''ValidatePayload'') (ValidatePayloadR R) (\<lambda>r. case r of
        Inl err \<Rightarrow> Fatalf
      | Inr u \<Rightarrow>
     (if CoverageMode cfg
      then call (Call ''MergeAndUpload'') (MergeAndUploadR R) (\<lambda>r. case r of
             Inl err \<Rightarrow> Fatalf
           | Inr u \<Rightarrow> ([], Exit 0))
      else
     (let taskPayload = \<lparr> Type = (if DiscoverMode cfg then DiscoveryTask
                                   else if FlakyMode cfg then FlakyTask else ExecutionTask),
                          Status = Running, Remark = [] \<rparr> in
     call (UpdateStatus taskPayload) (UpdateStatusRunningR R) (\<lambda>r. case r of
        Inl err \<Rightarrow> Fatalf
      | Inr u \<Rightarrow>
     deferred G R taskPayload (controlled G R cfg payload taskPayload sched))))))"

section \<open>Properties of traces\<close>

text \<open>The number of goroutines that were started and have not yet called \<^verbatim>\<open>wg.Done()\<close>.\<close>

fun pending :: "event list \<Rightarrow> int" where
  "pending [] = 0"
| "pending (WgAdd # es) = pending es + 1"
| "pending (WgDone # es) = pending es - 1"
| "pending (e # es) = pending es"

text \<open>
  The barrier is respected by a trace when every \<^verbatim>\<open>CacheWorkspace\<close> and every
  \<^verbatim>\<open>Upload\<close> in it comes at a moment when no started goroutine is still pending;
  \<open>n\<close> is the number pending before the trace.
\<close>

fun barrier_respected :: "int \<Rightarrow> event list \<Rightarrow> bool" where
  "barrier_respected n [] = True"
| "barrier_respected n (WgAdd # es) = barrier_respected (n + 1) es"
| "barrier_respected n (WgDone # es) = barrier_respected (n - 1) es"
| "barrier_respected n (CacheWorkspace # es) = (n = 0 \<and> barrier_respected n es)"
| "barrier_respected n (Upload k ps # es) = (n = 0 \<and> barrier_respected n es)"
| "barrier_respected n (e # es) = barrier_respected n es"

fun is_Upload :: "event \<Rightarrow> bool" where
  "is_Upload (Upload k ps) = True"
| "is_Upload e = False"

text \<open>
  The receive on the result channel comes at most once, and only after the subprocess
  has exited with success: \<open>exited\<close> says whether \<open>CmdExit True\<close> has been seen,
  \<open>received\<close> whether a receive has.
\<close>

fun recv_protocol :: "bool \<Rightarrow> bool \<Rightarrow> event list \<Rightarrow> bool" where
  "recv_protocol exited received [] = True"
| "recv_protocol exited received (CmdExit ok # es) = recv_protocol (exited \<or> ok) received es"
| "recv_protocol exited received (ChanRecv # es) =
     (exited \<and> \<not> received \<and> recv_protocol exited True es)"
| "recv_protocol exited received (e # es) = recv_protocol exited received es"

text \<open>The argument lists of the subprocesses a trace starts.\<close>

fun started_args :: "event list \<Rightarrow> string list list" where
  "started_args [] = []"
| "started_args (CmdStart runner args dir # es) = args # started_args es"
| "started_args (e # es) = started_args es"

text \<open>
  The three segments that follow \<open>--command discover\<close> in an argument list: the
  \<open>--diff\<close> pairs of the entries of a diff that are not removals, the \<open>--config\<close>
  pair, and the \<open>--pattern\<close> pairs.
\<close>

definition diffArgs :: "globals \<Rightarrow> diff \<Rightarrow> string list" where
  "diffArgs G diff =
     concat (map (\<lambda>kv. [''--diff'', fst kv]) (filter (\<lambda>kv. snd kv \<noteq> FileRemoved G) diff))"

definition configArgs :: "string \<Rightarrow> string list" where
  "configArgs configFile = (if configFile \<noteq> [] then [''--config'', configFile] else [])"

definition patternArgs :: "string list \<Rightarrow> string list" where
  "patternArgs target = concat (map (\<lambda>pattern. [''--pattern'', pattern]) target)"

text \<open>
  The events that bear on the barrier: those of the wait-group, the start of a goroutine,
  the persistence of the workspace, the upload, and a panic that leaves a goroutine.  All
  other events are quiet.
\<close>

fun quiet :: "event \<Rightarrow> bool" where
  "quiet WgAdd = False"
| "quiet WgDone = False"
| "quiet WgWait = False"
| "quiet (Go n) = False"
| "quiet CacheWorkspace = False"
| "quiet (Upload k ps) = False"
| "quiet (GoroutinePanic p) = False"
| "quiet e = True"

definition barrier_events :: "event list \<Rightarrow> event list" where
  "barrier_events tr = filter (\<lambda>e. \<not> quiet e) tr"

section \<open>Example values\<close>

text \<open>
  A configuration, a payload and a behaviour of the collaborators in which every call
  succeeds; the examples below vary it.  Nothing that is proved for all values depends
  on them.
\<close>

definition exGlobals :: globals where
  "exGlobals =
     \<lparr> GenericErrRemark = ''Unexpected error'',
       GitDiffNotFoundText = ''diff not found'',
       FileRemoved = 3,
       RepoDir = ''/home/nucleus/repo'',
       CodeCoverageDir = ''/home/nucleus/coverage'',
       BlockTestFileLocation = ''/home/nucleus/blocktests.json'',
       OauthSecretPath = ''/vault/secrets/oauth'',
       RepoSecretPath = ''/vault/secrets/reposecrets'',
       FrameworkRunnerMap = [(''jest'', ''jest-runner''), (''mocha'', ''mocha-runner'')],
       InstallRunnerCmds = [''install-runners''],
       pathJoin = (\<lambda>xs. foldr (\<lambda>a b. if b = [] then a else a @ ''/'' @ b) xs []) \<rparr>"

definition exResult :: DiscoveryResult where
  "exResult =
     \<lparr> Tests = ''[]'', ParallelismDR = 0, SplitModeDR = [], ContainerImageDR = [],
       TierDR = [], SubModuleDR = [] \<rparr>"

definition exTds :: tds_env where
  "exTds =
     \<lparr> GetConfigFileNameR = Ok ''.tas.yml'',
       GetEnvVariablesR = Ok [],
       cmdRunR = Ok (),
       tdResChan = Some exResult,
       MarshalR = Ok (),
       MakeAPIRequestR = Ok () \<rparr>"

definition exTask :: task_env where
  "exTask =
     \<lparr> GetBlockTestsT = Ok (), PreRunT = Ok (), InstallRunnersT = Ok (), tdsT = exTds \<rparr>"

definition exPayload :: Payload where
  "exPayload =
     \<lparr> TaskID = ''task'', BuildID = ''build'', OrgID = ''org'', RepoID = ''repo'',
       RepoLink = ''https://github.com/org/repo'', BranchName = ''main'',
       BuildTargetCommit = ''abc'', TasFileName = ''.tas.yml'',
       EventType = EventPullRequest, LicenseTier = ''small'', CollectCoverage = False \<rparr>"

definition exSubModule :: SubModule where
  "exSubModule =
     \<lparr> Name = ''web'', Path = ''./web'', PatternsSM = [''**/*.test.ts''],
       FrameworkSM = ''jest'', ConfigFileSM = [], EnvMapSM = [(''NODE_ENV'', ''test'')],
       PrerunSM = None, ParallelismSM = 1 \<rparr>"

definition exConfigV2 :: TASConfigV2 where
  "exConfigV2 =
     \<lparr> SmartRunV2 = True,
       PreMerge = \<lparr> SubModules = [exSubModule], EnvMapV2 = Some [(''CI'', ''true'')] \<rparr>,
       PostMerge = \<lparr> SubModules = [exSubModule], EnvMapV2 = Some [(''CI'', ''true'')] \<rparr>,
       CacheV2 = \<lparr> Key = ''key'', Paths = [''node_modules''] \<rparr>,
       SplitModeV2 = ''test'', ContainerImageV2 = [], TierV2 = ''small'' \<rparr>"

definition exConfig :: TASConfig where
  "exConfig =
     \<lparr> SmartRun = True, Framework = ''jest'', ConfigFile = [], NodeVersion = [],
       Premerge = Some \<lparr> Patterns = [''**/*.test.ts''], EnvMap = None \<rparr>,
       Postmerge = Some \<lparr> Patterns = [''**/*.test.ts''], EnvMap = None \<rparr>,
       Prerun = None, Postrun = None,
       CacheV1 = \<lparr> Key = ''key'', Paths = [''node_modules''] \<rparr>,
       Parallelism = 1, SplitMode = ''test'', ContainerImage = [], Tier = ''small'' \<rparr>"

definition exRun :: run_env where
  "exRun =
     \<lparr> FetchPayloadR = Ok exPayload,
       ValidatePayloadR = Ok (),
       MergeAndUploadR = Ok (),
       UpdateStatusRunningR = Ok (),
       UpdateStatusFinalR = Ok (),
       GetOauthSecretR = Ok (),
       GetRepoSecretR = Ok [],
       CloneR = Ok (),
       ExtractWorkspaceR = Ok (),
       CreateIfNotExistsR = Ok (),
       GetVersionR = Ok 2,
       LoadAndValidateV1R = Ok exConfig,
       LoadAndValidateV2R = Ok exConfigV2,
       InstallNodeVerR = Ok (),
       GetenvPATH = ''/usr/bin'',
       GetBlockTestsR = Ok (),
       DownloadR = Ok (),
       PreRunR = Ok (),
       InstallRunnersR = Ok (),
       CacheWorkspaceR = Ok (),
       GetChangedFilesR = Ok ([(''src/foo.ts'', 2)], None),
       tdsR = exTds,
       UploadR = Ok (),
       UploadAgainR = Ok (),
       ExecRunR = Ok (True, None),
       SendResultsR = Ok \<lparr> TaskStatus = Passed \<rparr>,
       PostRunR = Ok (),
       taskR = (\<lambda>i. exTask) \<rparr>"

definition exCfg :: NucleusConfig where
  "exCfg =
     \<lparr> CoverageMode = False, DiscoverMode = True, FlakyMode = False, ExecuteMode = False,
       Env = ''prod'' \<rparr>"

section \<open>Traces of the building blocks\<close>

lemma fst_emit [simp]: "fst (emit es r) = es @ fst r"
  by (simp add: emit_def)

lemma snd_emit [simp]: "snd (emit es r) = snd r"
  by (simp add: emit_def)

lemma fst_ret [simp]: "fst (ret x) = []"
  by (simp add: ret_def)

lemma snd_ret [simp]: "snd (ret x) = Done x"
  by (simp add: ret_def)

lemmas ex_defs = exGlobals_def exResult_def exTds_def exTask_def exPayload_def exSubModule_def
  exConfigV2_def exConfig_def exRun_def exCfg_def

text \<open>
  Rules that run a function on given behaviours of the collaborators.  They rewrite a
  call only when its result is known, so that nothing is copied under a \<open>\<lambda>\<close>.
\<close>

lemma emit_pair: "emit es (tr, x) = (es @ tr, x)"
  by (simp add: emit_def)

lemma call_Ok: "call ev (Ok x) k = emit [ev] (k (Inr x))"
  by (simp add: call_def)

lemma call_Fail: "call ev (Fail e) k = emit [ev] (k (Inl e))"
  by (simp add: call_def)

lemma call_Panic: "call ev (Panic p) k = ([ev], Panicked p)"
  by (simp add: call_def)

lemma call_Hang: "call ev Hang k = ([ev], Blocked)"
  by (simp add: call_def)

lemma andThen_Done: "andThen (tr, Done x) k = emit tr (k x)"
  by (simp add: andThen_def)

lemma andThen_Panicked: "andThen (tr, Panicked p) k = (tr, Panicked p)"
  by (simp add: andThen_def)

lemma andThen_Blocked: "andThen (tr, Blocked) k = (tr, Blocked)"
  by (simp add: andThen_def)

lemma andThen_Exit: "andThen (tr, Exit n) k = (tr, Exit n)"
  by (simp add: andThen_def)

lemma cmdRun_Ok:
  "cmdRun runner args dir (Ok u) k = emit [CmdStart runner args dir, CmdExit True] (k None)"
  by (simp add: cmdRun_def)

lemma cmdRun_Fail:
  "cmdRun runner args dir (Fail e) k
     = emit [CmdStart runner args dir, CmdExit False] (k (Some e))"
  by (simp add: cmdRun_def)

lemma recv_Some: "recv (Some r) k = emit [ChanRecv] (k r)"
  by (simp add: recv_def)

lemma recv_None: "recv None k = ([ChanRecv], Blocked)"
  by (simp add: recv_def)

lemma call_weak_cong: "c = c' \<Longrightarrow> call ev c k = call ev c' k"
  by simp

lemma andThen_weak_cong: "r = r' \<Longrightarrow> andThen r k = andThen r' k"
  by simp

lemma cmdRun_weak_cong: "c = c' \<Longrightarrow> cmdRun runner args dir c k = cmdRun runner args dir c' k"
  by simp

lemma recv_weak_cong: "ch = ch' \<Longrightarrow> recv ch k = recv ch' k"
  by simp

lemma changedFiles_weak_cong: "c = c' \<Longrightarrow> changedFiles G c st k = changedFiles G c' st k"
  by simp

lemmas run_congs = call_weak_cong andThen_weak_cong cmdRun_weak_cong recv_weak_cong
  changedFiles_weak_cong let_weak_cong

lemmas run_rules = emit_pair call_Ok call_Fail call_Panic call_Hang andThen_Done
  andThen_Panicked andThen_Blocked andThen_Exit cmdRun_Ok cmdRun_Fail recv_Some recv_None
  ret_def Fatalf_def Let_def

lemmas tds_defs = Discover_def DiscoverV2_def updateResult_def discoverArgs_def runnerOf_def
  mergeEnv_def setMergeEnv_def

lemmas task_defs = runDiscoveryForEachSubModule_def goroutine_def program_def programs_def

lemmas machine_defs = outcome_def exec_def step_def coordStep_def taskStep_def perform_def
  init_def

lemmas start_defs = Start_def controlled_def deferred_def report_def finalizer_def
  runNewVersion_def runOldVersion_def discoverOld_def executeOld_def installNodeVersion_def
  changedFiles_def genericErr_def

section \<open>The argument list\<close>

lemma rangeDiff_eq:
  "rangeDiff removed args diff =
     args @ concat (map (\<lambda>kv. [''--diff'', fst kv]) (filter (\<lambda>kv. snd kv \<noteq> removed) diff))"
  by (induction diff arbitrary: args) simp_all

lemma rangeTarget_eq: "rangeTarget args target = args @ patternArgs target"
  by (induction target arbitrary: args) (simp_all add: patternArgs_def)

lemma discoverArgs_eq:
  "discoverArgs G smartRun configFilePath diff diffExists configFile target =
     [''--command'', ''discover'']
     @ (if map_of diff configFilePath \<noteq> None \<or> \<not> smartRun then []
        else if diff = [] \<and> diffExists then [''--diff'']
        else diffArgs G diff)
     @ configArgs configFile @ patternArgs target"
  by (simp add: discoverArgs_def Let_def rangeDiff_eq rangeTarget_eq configArgs_def diffArgs_def)

lemma started_call:
  "started_args (fst (call (Call n) c k)) =
     (case c of Ok x \<Rightarrow> started_args (fst (k (Inr x)))
      | Fail e \<Rightarrow> started_args (fst (k (Inl e))) | Panic p \<Rightarrow> [] | Hang \<Rightarrow> [])"
  by (simp add: call_def split: call.splits)

lemma started_cmdRun:
  "started_args (fst (cmdRun r a d c k)) =
     a # (case c of Ok x \<Rightarrow> started_args (fst (k None))
          | Fail e \<Rightarrow> started_args (fst (k (Some e))) | Panic p \<Rightarrow> [] | Hang \<Rightarrow> [])"
  by (simp add: cmdRun_def split: call.splits)

lemma started_updateResult: "started_args (fst (updateResult D r)) = []"
  by (simp add: updateResult_def call_def split: call.splits)

lemma started_recv:
  "started_args (fst (recv ch k)) =
     (case ch of None \<Rightarrow> [] | Some r \<Rightarrow> started_args (fst (k r)))"
  by (simp add: recv_def split: option.splits)

lemma Discover_started:
  assumes "GetConfigFileNameR D = Ok configFilePath"
    and "(if EventType payload = EventPullRequest then Premerge tasConfig
          else Postmerge tasConfig) = Some merge"
  shows "set (started_args (fst (Discover G D tasConfig payload secretData diff diffExists)))
         \<subseteq> {discoverArgs G (SmartRun tasConfig) configFilePath diff diffExists
               (ConfigFile tasConfig) (Patterns merge)}"
  using assms unfolding Discover_def Let_def
  by (simp add: started_call started_cmdRun started_recv
        started_updateResult split: call.split option.split)

lemma DiscoverV2_started:
  assumes "GetConfigFileNameR D = Ok configFilePath"
  shows "set (started_args (fst (snd (DiscoverV2 G D subModule payload secretData tasConfig
                                        diff diffExists))))
         \<subseteq> {discoverArgs G (SmartRunV2 tasConfig) configFilePath diff diffExists
               (ConfigFileSM subModule) (PatternsSM subModule)}"
  using assms unfolding DiscoverV2_def Let_def
  by (simp add: started_call started_cmdRun started_recv
        started_updateResult split: call.split option.split)

lemma no_diff_in_rest:
  "configFile \<noteq> ''--diff'' \<Longrightarrow> ''--diff'' \<notin> set target \<Longrightarrow>
   ''--diff'' \<notin> set ([''--command'', ''discover''] @ configArgs configFile @ patternArgs target)"
  by (induction target) (auto simp: configArgs_def patternArgs_def)

text \<open>
  C4.  When the config file is a key of the diff map, or \<^verbatim>\<open>smartRun\<close> is false,
  every discovery subprocess that \<^verbatim>\<open>Discover\<close> or \<^verbatim>\<open>DiscoverV2\<close> starts gets the
  arguments \<open>--command discover\<close>, the \<open>--config\<close> pair if a config file is set, and
  the \<open>--pattern\<close> pairs, and nothing else: no \<open>--diff\<close> argument, bare or with a
  path.  (The last part says that such a list does not contain the word \<open>--diff\<close>
  unless the configured file name or a pattern is that word.)
\<close>

theorem C4_full_discovery:
  assumes "GetConfigFileNameR D = Ok configFilePath"
    and "map_of diff configFilePath \<noteq> None \<or> \<not> smartRun"
  shows "(SmartRun tasConfig = smartRun
          \<and> (if EventType payload = EventPullRequest then Premerge tasConfig
              else Postmerge tasConfig) = Some merge
          \<longrightarrow> set (started_args
                     (fst (Discover G D tasConfig payload secretData diff diffExists)))
              \<subseteq> {[''--command'', ''discover''] @ configArgs (ConfigFile tasConfig)
                   @ patternArgs (Patterns merge)})
       \<and> (SmartRunV2 tasConfigNew = smartRun
          \<longrightarrow> set (started_args
                     (fst (snd (DiscoverV2 G D subModule payload secretData tasConfigNew
                                  diff diffExists))))
              \<subseteq> {[''--command'', ''discover''] @ configArgs (ConfigFileSM subModule)
                   @ patternArgs (PatternsSM subModule)})
       \<and> (configFile \<noteq> ''--diff'' \<and> ''--diff'' \<notin> set target
          \<longrightarrow> ''--diff'' \<notin> set ([''--command'', ''discover''] @ configArgs configFile
                                   @ patternArgs target))"
proof (intro conjI impI)
  assume a: "SmartRun tasConfig = smartRun
          \<and> (if EventType payload = EventPullRequest then Premerge tasConfig
              else Postmerge tasConfig) = Some merge"
  from a assms(2) have "discoverArgs G (SmartRun tasConfig) configFilePath diff diffExists
               (ConfigFile tasConfig) (Patterns merge) = [''--command'', ''discover''] @ configArgs (ConfigFile tasConfig)
                   @ patternArgs (Patterns merge)"
    by (auto simp: discoverArgs_eq)
  with Discover_started[OF assms(1) conjunct2[OF a], of G secretData diff diffExists]
  show "set (started_args
                     (fst (Discover G D tasConfig payload secretData diff diffExists)))
              \<subseteq> {[''--command'', ''discover''] @ configArgs (ConfigFile tasConfig)
                   @ patternArgs (Patterns merge)}" by simp
next
  assume a: "SmartRunV2 tasConfigNew = smartRun"
  from a assms(2) have "discoverArgs G (SmartRunV2 tasConfigNew) configFilePath diff diffExists
               (ConfigFileSM subModule) (PatternsSM subModule) = [''--command'', ''discover''] @ configArgs (ConfigFileSM subModule)
                   @ patternArgs (PatternsSM subModule)"
    by (auto simp: discoverArgs_eq)
  with DiscoverV2_started[OF assms(1), of G subModule payload secretData tasConfigNew diff diffExists]
  show "set (started_args
                     (fst (snd (DiscoverV2 G D subModule payload secretData tasConfigNew
                                  diff diffExists))))
              \<subseteq> {[''--command'', ''discover''] @ configArgs (ConfigFileSM subModule)
                   @ patternArgs (PatternsSM subModule)}" by simp
next
  assume "configFile \<noteq> ''--diff'' \<and> ''--diff'' \<notin> set target"
  then show "''--diff'' \<notin> set ([''--command'', ''discover''] @ configArgs configFile
                                   @ patternArgs target)"
    using no_diff_in_rest by blast
qed

theorem C4_full_discovery_witness:
  "GetConfigFileNameR exTds = Ok ''.tas.yml''
   \<and> map_of [(''.tas.yml'', 2)] ''.tas.yml'' \<noteq> None
   \<and> started_args (fst (Discover exGlobals exTds exConfig exPayload [] [(''.tas.yml'', 2)] True))
       = [[''--command'', ''discover'', ''--pattern'', ''**/*.test.ts'']]
   \<and> started_args (fst (snd (DiscoverV2 exGlobals exTds exSubModule exPayload []
                                exConfigV2 [(''.tas.yml'', 2)] True)))
       = [[''--command'', ''discover'', ''--pattern'', ''**/*.test.ts'']]
   \<and> ''--diff'' \<notin> set ([''--command'', ''discover''] @ configArgs []
                           @ patternArgs [''**/*.test.ts''])"
  using C4_full_discovery [where D = exTds and configFilePath = "''.tas.yml''"
      and diff = "[(''.tas.yml'', 2)]" and smartRun = True and tasConfig = exConfig
      and payload = exPayload and merge = "\<lparr> Patterns = [''**/*.test.ts''], EnvMap = None \<rparr>"
      and G = exGlobals and secretData = "[]" and diffExists = True
      and tasConfigNew = exConfigV2 and subModule = exSubModule
      and configFile = "[]" and target = "[''**/*.test.ts'']"]
  by (simp add: tds_defs run_rules ex_defs configArgs_def patternArgs_def cong: run_congs)

text \<open>
  C5.  When \<^verbatim>\<open>smartRun\<close> is true and the config file is not a key of the diff map,
  the arguments of every discovery subprocess have, after \<open>--command discover\<close>,
  one bare \<open>--diff\<close> if the diff map is empty and the diff was computed, and otherwise
  one \<open>--diff path\<close> pair for each entry of the diff map that is not a removal, and
  none for a removal; the \<open>--config\<close> and \<open>--pattern\<close> pairs follow.
\<close>

theorem C5_diff_arguments:
  assumes "GetConfigFileNameR D = Ok configFilePath"
    and "map_of diff configFilePath = None"
  shows "(SmartRun tasConfig
          \<and> (if EventType payload = EventPullRequest then Premerge tasConfig
              else Postmerge tasConfig) = Some merge
          \<longrightarrow> set (started_args
                     (fst (Discover G D tasConfig payload secretData diff diffExists)))
              \<subseteq> {[''--command'', ''discover'']
                   @ (if diff = [] \<and> diffExists then [''--diff''] else diffArgs G diff)
                   @ configArgs (ConfigFile tasConfig) @ patternArgs (Patterns merge)})
       \<and> (SmartRunV2 tasConfigNew
          \<longrightarrow> set (started_args
                     (fst (snd (DiscoverV2 G D subModule payload secretData tasConfigNew
                                  diff diffExists))))
              \<subseteq> {[''--command'', ''discover'']
                   @ (if diff = [] \<and> diffExists then [''--diff''] else diffArgs G diff)
                   @ configArgs (ConfigFileSM subModule)
                   @ patternArgs (PatternsSM subModule)})"
proof (intro conjI impI)
  assume a: "SmartRun tasConfig
          \<and> (if EventType payload = EventPullRequest then Premerge tasConfig
              else Postmerge tasConfig) = Some merge"
  from a assms(2) have "discoverArgs G (SmartRun tasConfig) configFilePath diff diffExists
               (ConfigFile tasConfig) (Patterns merge) = [''--command'', ''discover'']
                   @ (if diff = [] \<and> diffExists then [''--diff''] else diffArgs G diff)
                   @ configArgs (ConfigFile tasConfig) @ patternArgs (Patterns merge)"
    by (simp add: discoverArgs_eq)
  with Discover_started[OF assms(1) conjunct2[OF a], of G secretData diff diffExists]
  show "set (started_args
                     (fst (Discover G D tasConfig payload secretData diff diffExists)))
              \<subseteq> {[''--command'', ''discover'']
                   @ (if diff = [] \<and> diffExists then [''--diff''] else diffArgs G diff)
                   @ configArgs (ConfigFile tasConfig) @ patternArgs (Patterns merge)}" by simp
next
  assume a: "SmartRunV2 tasConfigNew"
  from a assms(2) have "discoverArgs G (SmartRunV2 tasConfigNew) configFilePath diff diffExists
               (ConfigFileSM subModule) (PatternsSM subModule) = [''--command'', ''discover'']
                   @ (if diff = [] \<and> diffExists then [''--diff''] else diffArgs G diff)
                   @ configArgs (ConfigFileSM subModule)
                   @ patternArgs (PatternsSM subModule)"
    by (simp add: discoverArgs_eq)
  with DiscoverV2_started[OF assms(1), of G subModule payload secretData tasConfigNew diff diffExists]
  show "set (started_args
                     (fst (snd (DiscoverV2 G D subModule payload secretData tasConfigNew
                                  diff diffExists))))
              \<subseteq> {[''--command'', ''discover'']
                   @ (if diff = [] \<and> diffExists then [''--diff''] else diffArgs G diff)
                   @ configArgs (ConfigFileSM subModule)
                   @ patternArgs (PatternsSM subModule)}" by simp
qed

theorem C5_diff_arguments_witness:
  "GetConfigFileNameR exTds = Ok ''.tas.yml''
   \<and> map_of [(''a.ts'', 2), (''b.ts'', 3)] ''.tas.yml'' = None
   \<and> started_args (fst (Discover exGlobals exTds exConfig exPayload []
                          [(''a.ts'', 2), (''b.ts'', 3)] True))
       = [[''--command'', ''discover'', ''--diff'', ''a.ts'', ''--pattern'', ''**/*.test.ts'']]
   \<and> started_args (fst (snd (DiscoverV2 exGlobals exTds exSubModule exPayload []
                                exConfigV2 [(''a.ts'', 2), (''b.ts'', 3)] True)))
       = [[''--command'', ''discover'', ''--diff'', ''a.ts'', ''--pattern'', ''**/*.test.ts'']]
   \<and> started_args (fst (Discover exGlobals exTds exConfig exPayload [] [] True))
       = [[''--command'', ''discover'', ''--diff'', ''--pattern'', ''**/*.test.ts'']]"
  using C5_diff_arguments [where D = exTds and configFilePath = "''.tas.yml''"
      and diff = "[(''a.ts'', 2), (''b.ts'', 3)]" and tasConfig = exConfig
      and payload = exPayload and merge = "\<lparr> Patterns = [''**/*.test.ts''], EnvMap = None \<rparr>"
      and G = exGlobals and secretData = "[]" and diffExists = True
      and tasConfigNew = exConfigV2 and subModule = exSubModule]
    C5_diff_arguments [where D = exTds and configFilePath = "''.tas.yml''"
      and diff = "[]" and tasConfig = exConfig
      and payload = exPayload and merge = "\<lparr> Patterns = [''**/*.test.ts''], EnvMap = None \<rparr>"
      and G = exGlobals and secretData = "[]" and diffExists = True
      and tasConfigNew = exConfigV2 and subModule = exSubModule]
  by (simp add: tds_defs run_rules ex_defs configArgs_def patternArgs_def diffArgs_def
        cong: run_congs)



text \<open>
  A whole run of schema v1 in which \<^verbatim>\<open>GetChangedFiles\<close> fails with
  \<^verbatim>\<open>ErrGitDiffNotFound\<close>: discovery is run with \<^verbatim>\<open>diffExists = false\<close>, the
  subprocess gets no \<open>--diff\<close> argument, and the task is reported as passed.
\<close>

lemma diff_not_found_example_run:
  "Start exGlobals (exRun \<lparr> GetVersionR := Ok 1, GetChangedFilesR := Fail ErrGitDiffNotFound \<rparr>)
     exCfg [] =
   ([Call ''FetchPayload'', Call ''ValidatePayload'',
     UpdateStatus \<lparr> Type = DiscoveryTask, Status = Running, Remark = [] \<rparr>,
     Call ''GetOauthSecret'', Call ''GetRepoSecret'', Call ''Clone'',
     Call ''GetVersion'', Setenv ''TASK_ID'' ''task'',
     Setenv ''ORG_ID'' ''org'', Setenv ''BUILD_ID'' ''build'',
     Setenv ''COMMIT_ID'' ''abc'', Setenv ''REPO_ID'' ''repo'',
     Setenv ''CODE_COVERAGE_DIR'' ''/home/nucleus/coverage/org/repo/abc'',
     Setenv ''BRANCH_NAME'' ''main'', Setenv ''ENV'' ''prod'',
     Setenv ''ENDPOINT_POST_TEST_LIST'' ''http://localhost:9876/test-list'',
     Setenv ''ENDPOINT_POST_TEST_RESULTS'' ''http://localhost:9876/results'',
     Setenv ''REPO_ROOT'' ''/home/nucleus/repo'',
     Setenv ''BLOCK_TESTS_FILE'' ''/home/nucleus/blocktests.json'',
     Setenv ''MODULE_PATH'' [], Call ''LoadAndValidateV1'',
     Call ''GetBlockTests'', Download ''org/repo/key'',
     Call ''ExecuteInternalCommands InstallRunners'', CacheWorkspace,
     Call ''GetChangedFiles'', DiscoverCalled [] False,
     Call ''GetConfigFileName'', Call ''GetEnvVariables'',
     CmdStart ''jest-runner''
       [''--command'', ''discover'', ''--pattern'', ''**/*.test.ts''] ''/home/nucleus/repo'',
     CmdExit True, ChanRecv, Call ''json.Marshal'',
     MakeAPIRequest
       \<lparr> Tests = ''[]'', ParallelismDR = 1, SplitModeDR = ''test'',
         ContainerImageDR = [], TierDR = ''small'', SubModuleDR = [] \<rparr>,
     Upload ''org/repo/key'' [''node_modules''],
     UpdateStatus \<lparr> Type = DiscoveryTask, Status = Passed, Remark = [] \<rparr>],
    Done None)"
  by (simp add: start_defs tds_defs task_defs machine_defs run_rules ex_defs cong: run_congs)

section \<open>The receive on the result channel\<close>

lemma protocol_call:
  "recv_protocol ex rc (fst (call (Call n) c k)) =
     (case c of Ok x \<Rightarrow> recv_protocol ex rc (fst (k (Inr x)))
      | Fail e \<Rightarrow> recv_protocol ex rc (fst (k (Inl e))) | Panic p \<Rightarrow> True | Hang \<Rightarrow> True)"
  by (simp add: call_def split: call.splits)

lemma protocol_cmdRun:
  "recv_protocol ex rc (fst (cmdRun r a d c k)) =
     (case c of Ok x \<Rightarrow> recv_protocol True rc (fst (k None))
      | Fail e \<Rightarrow> recv_protocol ex rc (fst (k (Some e))) | Panic p \<Rightarrow> True | Hang \<Rightarrow> True)"
  by (simp add: cmdRun_def split: call.splits)

lemma protocol_recv:
  "recv_protocol ex rc (fst (recv ch k)) =
     (ex \<and> \<not> rc \<and> (case ch of None \<Rightarrow> True | Some r \<Rightarrow> recv_protocol ex True (fst (k r))))"
  by (simp add: recv_def split: option.splits)

lemma protocol_updateResult: "recv_protocol ex rc (fst (updateResult D r))"
  by (simp add: updateResult_def call_def split: call.splits)

lemma Discover_protocol:
  "recv_protocol False False (fst (Discover G D tasConfig payload secretData diff diffExists))"
  unfolding Discover_def Let_def
  by (simp add: protocol_call protocol_cmdRun protocol_recv protocol_updateResult
        split: call.split option.split)

lemma DiscoverV2_protocol:
  "recv_protocol False False
     (fst (snd (DiscoverV2 G D subModule payload secretData tasConfig diff diffExists)))"
  unfolding DiscoverV2_def Let_def
  by (simp add: protocol_call protocol_cmdRun protocol_recv protocol_updateResult
        split: call.split option.split)

text \<open>
  C6.  Whatever the collaborators do, in every invocation of \<^verbatim>\<open>Discover\<close> and of
  \<^verbatim>\<open>DiscoverV2\<close> the receive on the result channel is begun at most once, and only
  after \<^verbatim>\<open>cmd.Run()\<close> has returned nil, that is after the discovery subprocess has
  exited with success.
\<close>

theorem C6_receive_after_exit:
  "recv_protocol False False (fst (Discover G D tasConfig payload secretData diff diffExists))
   \<and> recv_protocol False False
       (fst (snd (DiscoverV2 G DNew subModule payload secretData tasConfigNew diff diffExists)))"
  by (simp add: Discover_protocol DiscoverV2_protocol)

section \<open>The lifecycle\<close>





text \<open>
  C3.  The claim: an error that reaches the deferred function and is neither a
  cancellation nor a \<^verbatim>\<open>StatusFailed\<close> is reported with status \<open>Error\<close> and a generic
  remark that does not show the error.  In the run below \<^verbatim>\<open>GetOauthSecret\<close> fails;
  \<^verbatim>\<open>Start\<close> returns that error as it is, and the deferred function reports its text
  as the remark.
\<close>

theorem C3_oauth_error_reported_as_is:
  "Start exGlobals
     (exRun \<lparr> GetOauthSecretR :=
                Fail (ErrorString ''open /vault/secrets/oauth: permission denied'') \<rparr>)
     exCfg [] =
   ([Call ''FetchPayload'', Call ''ValidatePayload'',
     UpdateStatus \<lparr> Type = DiscoveryTask, Status = Running, Remark = [] \<rparr>,
     Call ''GetOauthSecret'',
     UpdateStatus \<lparr> Type = DiscoveryTask, Status = Error,
                    Remark = ''open /vault/secrets/oauth: permission denied'' \<rparr>],
    Done None)
   \<and> ''open /vault/secrets/oauth: permission denied'' \<noteq> GenericErrRemark exGlobals"
  by (simp add: start_defs tds_defs task_defs machine_defs run_rules ex_defs cong: run_congs)

section \<open>Schema v2: the barrier and the upload\<close>

text \<open>
  C1.  The claim: in schema v2, for push and for pull-request events, every started
  submodule task has called \<^verbatim>\<open>wg.Done()\<close> before \<^verbatim>\<open>CacheWorkspace\<close> is called.
  In the run below the event is a push, there is one submodule, and the coordinator
  takes three steps before the goroutine takes any: \<^verbatim>\<open>CacheWorkspace\<close> is called while
  the goroutine is pending.
\<close>

theorem C1_push_does_not_wait:
  "fst (runNewVersion exGlobals exRun exCfg (exPayload \<lparr> EventType := EventPush \<rparr>)
          \<lparr> Type = DiscoveryTask, Status = Running, Remark = [] \<rparr> []
          [Coordinator, Coordinator, Coordinator])
     = [Call ''LoadAndValidateV2'', Download ''org/repo/key'', Call ''GetChangedFiles'',
        WgAdd, Go ''web'', CacheWorkspace]
   \<and> \<not> barrier_respected 0
         (fst (runNewVersion exGlobals exRun exCfg (exPayload \<lparr> EventType := EventPush \<rparr>)
                 \<lparr> Type = DiscoveryTask, Status = Running, Remark = [] \<rparr> []
                 [Coordinator, Coordinator, Coordinator]))"
  by (simp add: start_defs tds_defs task_defs machine_defs run_rules ex_defs cong: run_congs)

text \<open>
  C2.  The claim: in schema v2 the cache is uploaded exactly once per run.  In the run
  below (a pull request, one submodule, every call succeeds) \<^verbatim>\<open>Upload\<close> is called
  twice, with the same key and paths.
\<close>

theorem C2_upload_is_called_twice:
  "runNewVersion exGlobals exRun exCfg exPayload
     \<lparr> Type = DiscoveryTask, Status = Running, Remark = [] \<rparr> []
     [Coordinator, Coordinator, Task 0, Task 0, Task 0, Task 0, Task 0, Task 0, Task 0,
      Task 0, Task 0, Task 0, Coordinator, Coordinator, Coordinator, Coordinator]
   = ([Call ''LoadAndValidateV2'', Download ''org/repo/key'', Call ''GetChangedFiles'',
       WgAdd, Go ''web'',
       Call ''GetBlockTests'', Call ''ExecuteInternalCommands InstallRunners'',
       Call ''GetConfigFileName'', Call ''GetEnvVariables'',
       CmdStart ''jest-runner''
         [''--command'', ''discover'', ''--diff'', ''src/foo.ts'', ''--pattern'', ''**/*.test.ts'']
         ''/home/nucleus/repo/./web'',
       CmdExit True, ChanRecv, Call ''json.Marshal'',
       MakeAPIRequest
         \<lparr> Tests = ''[]'', ParallelismDR = 1, SplitModeDR = ''test'',
           ContainerImageDR = [], TierDR = ''small'', SubModuleDR = ''web'' \<rparr>,
       WgDone, WgWait, CacheWorkspace,
       Upload ''org/repo/key'' [''node_modules''],
       Upload ''org/repo/key'' [''node_modules'']],
      Done (\<lparr> Type = DiscoveryTask, Status = Running, Remark = [] \<rparr>, None))"
  by (simp add: start_defs tds_defs task_defs machine_defs run_rules ex_defs cong: run_congs)

end
